theory Spec2Isabelle
  imports Complex_Main
begin

section \<open>Python values and built-ins used by the pipeline\<close>

text \<open>
  Exceptions are values: a kind (the Python class) and the message that \<open>str(e)\<close> gives.
  A function that may raise returns \<open>exn + 'a\<close>, with \<open>Inl\<close> for the raised exception.
\<close>

datatype exn_kind =
    AttributeError | TypeError | ValueError | KeyError | ValidationError
  | HTTPError | ConnectionError | JSONDecodeError
  | FileNotFoundError | CSVParseError | RecursionError | DatabaseError

datatype exn = Exn exn_kind string

fun kind :: "exn \<Rightarrow> exn_kind" where
  "kind (Exn k m) = k"

fun message :: "exn \<Rightarrow> string" where
  "message (Exn k m) = m"

definition bind :: "exn + 'a \<Rightarrow> ('a \<Rightarrow> exn + 'b) \<Rightarrow> exn + 'b" where
  "bind m f = (case m of Inl e \<Rightarrow> Inl e | Inr x \<Rightarrow> f x)"

text \<open>
  A Python float is a finite value or one of \<open>inf\<close>, \<open>-inf\<close>, \<open>nan\<close>. Finite values are
  exact rationals: binary rounding, overflow and underflow are not modelled, and there
  is one zero. The comparisons with zero used by the schema are those of IEEE 754
  (every comparison with \<open>nan\<close> is false).
\<close>

datatype pyfloat = Fin rat | PosInf | NegInf | NaN

fun float_gt0 :: "pyfloat \<Rightarrow> bool" where
  "float_gt0 (Fin r) = (0 < r)"
| "float_gt0 PosInf = True"
| "float_gt0 NegInf = False"
| "float_gt0 NaN = False"

fun float_ge0 :: "pyfloat \<Rightarrow> bool" where
  "float_ge0 (Fin r) = (0 \<le> r)"
| "float_ge0 PosInf = True"
| "float_ge0 NegInf = False"
| "float_ge0 NaN = False"

fun float_lt0 :: "pyfloat \<Rightarrow> bool" where
  "float_lt0 (Fin r) = (r < 0)"
| "float_lt0 PosInf = False"
| "float_lt0 NegInf = True"
| "float_lt0 NaN = False"

text \<open>
  The values a raw item can hold: what \<open>response.json()\<close> and the CSV reader produce.
  A dict is an association list; a lookup takes the first entry of a key.
\<close>

datatype pyval =
    PNone | PBool bool | PInt int | PFloat pyfloat | PStr string
  | PList "pyval list" | PDict "(string \<times> pyval) list"

text \<open>Truth value of an object, as \<open>if x\<close>, \<open>not x\<close> and \<open>x or y\<close> test it.\<close>

fun truthy :: "pyval \<Rightarrow> bool" where
  "truthy PNone = False"
| "truthy (PBool b) = b"
| "truthy (PInt i) = (i \<noteq> 0)"
| "truthy (PFloat (Fin r)) = (r \<noteq> 0)"
| "truthy (PFloat f) = True"
| "truthy (PStr s) = (s \<noteq> [])"
| "truthy (PList xs) = (xs \<noteq> [])"
| "truthy (PDict kvs) = (kvs \<noteq> [])"

text \<open>
  \<open>obj.get(key, default)\<close>: defined on dicts only; on any other object the attribute
  lookup raises AttributeError.
\<close>

definition py_get :: "pyval \<Rightarrow> string \<Rightarrow> pyval \<Rightarrow> exn + pyval" where
  "py_get obj key dflt =
     (case obj of
        PDict kvs \<Rightarrow> Inr (case map_of kvs key of Some v \<Rightarrow> v | None \<Rightarrow> dflt)
      | _ \<Rightarrow> Inl (Exn AttributeError ''object has no attribute 'get' ''))"

text \<open>\<open>len(x)\<close> and \<open>for item in x\<close>: lists, dicts (their keys) and strings (their characters).\<close>

definition py_len :: "pyval \<Rightarrow> exn + nat" where
  "py_len v =
     (case v of
        PList xs \<Rightarrow> Inr (length xs)
      | PDict kvs \<Rightarrow> Inr (length kvs)
      | PStr s \<Rightarrow> Inr (length s)
      | _ \<Rightarrow> Inl (Exn TypeError ''object has no len()''))"

definition py_iter :: "pyval \<Rightarrow> exn + pyval list" where
  "py_iter v =
     (case v of
        PList xs \<Rightarrow> Inr xs
      | PDict kvs \<Rightarrow> Inr (map (\<lambda>kv. PStr (fst kv)) kvs)
      | PStr s \<Rightarrow> Inr (map (\<lambda>c. PStr [c]) s)
      | _ \<Rightarrow> Inl (Exn TypeError ''object is not iterable''))"

subsection \<open>Strings\<close>

text \<open>
  Strings are ASCII. \<open>str.strip()\<close> removes the characters \<open>str.isspace()\<close> accepts:
  tab, newline, vertical tab, form feed, carriage return, the separators 0x1C to 0x1F
  and the space.
\<close>

definition is_space :: "char \<Rightarrow> bool" where
  "is_space c = (let n = (of_char c :: nat) in (9 \<le> n \<and> n \<le> 13) \<or> (28 \<le> n \<and> n \<le> 32))"

definition strip :: "string \<Rightarrow> string" where
  "strip s = rev (dropWhile is_space (rev (dropWhile is_space s)))"

definition lower_char :: "char \<Rightarrow> char" where
  "lower_char c =
     (case map_of (zip ''ABCDEFGHIJKLMNOPQRSTUVWXYZ'' ''abcdefghijklmnopqrstuvwxyz'') c of
        Some l \<Rightarrow> l
      | None \<Rightarrow> c)"

definition lower :: "string \<Rightarrow> string" where
  "lower s = map lower_char s"

text \<open>\<open>s.replace(',', '')\<close>\<close>

definition remove_commas :: "string \<Rightarrow> string" where
  "remove_commas s = filter (\<lambda>c. c \<noteq> CHR '','') s"

text \<open>\<open>sep.join(parts)\<close>\<close>

fun join :: "string \<Rightarrow> string list \<Rightarrow> string" where
  "join sep [] = []"
| "join sep [x] = x"
| "join sep (x # y # ys) = x @ sep @ join sep (y # ys)"

definition is_digit :: "char \<Rightarrow> bool" where
  "is_digit c = (let n = (of_char c :: nat) in 48 \<le> n \<and> n \<le> 57)"

definition digit_val :: "char \<Rightarrow> nat" where
  "digit_val c = of_char c - 48"

definition nat_of_digits :: "string \<Rightarrow> nat" where
  "nat_of_digits ds = foldl (\<lambda>a c. 10 * a + digit_val c) 0 ds"

definition digit_char :: "nat \<Rightarrow> char" where
  "digit_char n = ''0123456789'' ! n"

fun show_nat :: "nat \<Rightarrow> string" where
  "show_nat n =
     (if n < 10 then [digit_char n] else show_nat (n div 10) @ [digit_char (n mod 10)])"

definition show_int :: "int \<Rightarrow> string" where
  "show_int i = (if i < 0 then CHR ''-'' # show_nat (nat (- i)) else show_nat (nat i))"

text \<open>
  \<open>str(x)\<close>. For a float, a list or a dict the text is the object's \<open>repr\<close>, which is
  not modelled: it is the parameter \<open>repr\<close>.
\<close>

definition py_str :: "(pyval \<Rightarrow> string) \<Rightarrow> pyval \<Rightarrow> string" where
  "py_str repr v =
     (case v of
        PStr s \<Rightarrow> s
      | PNone \<Rightarrow> ''None''
      | PBool b \<Rightarrow> (if b then ''True'' else ''False'')
      | PInt i \<Rightarrow> show_int i
      | _ \<Rightarrow> repr v)"

subsection \<open>\<open>float(s)\<close> on a string\<close>

text \<open>
  The grammar \<open>float\<close> accepts, after stripping white space (here the six characters of
  C's \<open>isspace\<close>): an optional sign, then \<open>inf\<close>, \<open>infinity\<close> or \<open>nan\<close> in any case,
  or a decimal number with an optional fraction and exponent, where single underscores
  may separate digits. Anything else raises ValueError, the result \<open>None\<close> here.
\<close>

definition is_cspace :: "char \<Rightarrow> bool" where
  "is_cspace c = (let n = (of_char c :: nat) in (9 \<le> n \<and> n \<le> 13) \<or> n = 32)"

definition cstrip :: "string \<Rightarrow> string" where
  "cstrip s = rev (dropWhile is_cspace (rev (dropWhile is_cspace s)))"

text \<open>The longest prefix \<open>digit (["_"] digit)*\<close>, without its underscores, and the rest.\<close>

fun take_digitpart :: "string \<Rightarrow> string \<times> string" where
  "take_digitpart [] = ([], [])"
| "take_digitpart [c] = (if is_digit c then ([c], []) else ([], [c]))"
| "take_digitpart (c # d # cs) =
     (if \<not> is_digit c then ([], c # d # cs)
      else if d = CHR ''_'' then
        (case cs of
           [] \<Rightarrow> ([c], d # cs)
         | e # es \<Rightarrow>
             if is_digit e then (case take_digitpart (e # es) of (ds, r) \<Rightarrow> (c # ds, r))
             else ([c], d # cs))
      else (case take_digitpart (d # cs) of (ds, r) \<Rightarrow> (c # ds, r)))"

definition take_sign :: "string \<Rightarrow> bool \<times> string" where
  "take_sign s =
     (case s of
        [] \<Rightarrow> (False, [])
      | c # cs \<Rightarrow>
          if c = CHR ''-'' then (True, cs) else if c = CHR ''+'' then (False, cs) else (False, s))"

definition parse_exponent :: "string \<Rightarrow> int option" where
  "parse_exponent s =
     (case take_sign s of (neg, t) \<Rightarrow>
        (case take_digitpart t of (ds, r) \<Rightarrow>
           if ds = [] \<or> r \<noteq> [] then None
           else Some (if neg then - int (nat_of_digits ds) else int (nat_of_digits ds))))"

definition scale10 :: "rat \<Rightarrow> int \<Rightarrow> rat" where
  "scale10 r e = (if 0 \<le> e then r * 10 ^ nat e else r / 10 ^ nat (- e))"

definition parse_number :: "string \<Rightarrow> rat option" where
  "parse_number s =
     (case take_digitpart s of (ip, r1) \<Rightarrow>
        (case (case r1 of
                 [] \<Rightarrow> ([], r1)
               | c # cs \<Rightarrow> if c = CHR ''.'' then take_digitpart cs else ([], r1)) of
           (fp, r2) \<Rightarrow>
             if ip = [] \<and> fp = [] then None
             else
               (let m = of_nat (nat_of_digits (ip @ fp)) / 10 ^ length fp in
                case r2 of
                  [] \<Rightarrow> Some m
                | c # cs \<Rightarrow>
                    if c = CHR ''e'' \<or> c = CHR ''E'' then map_option (scale10 m) (parse_exponent cs)
                    else None)))"

definition py_float :: "string \<Rightarrow> pyfloat option" where
  "py_float s =
     (case take_sign (cstrip s) of (neg, u) \<Rightarrow>
        if lower u = ''inf'' \<or> lower u = ''infinity'' then Some (if neg then NegInf else PosInf)
        else if lower u = ''nan'' then Some NaN
        else map_option (\<lambda>r. Fin (if neg then - r else r)) (parse_number u))"

section \<open>The unified schema (ingestion/schemas.py)\<close>

record CryptoData =
  crypto_id :: string
  crypto_name :: string
  price_usd :: pyfloat
  market_cap_usd :: "pyfloat option"
  volume_24h_usd :: "pyfloat option"
  change_24h_percent :: "pyfloat option"
  source :: string
  timestamp :: nat

text \<open>
  Field types, as the validation library (Pydantic 2, lax mode) coerces them; this is
  library behaviour, not repository code. A \<open>str\<close> field accepts a string only. A
  \<open>float\<close> field accepts a float, an int, a bool, or a string that parses as a float.
  An \<open>Optional[float]\<close> field also accepts \<open>None\<close>. The result \<open>None\<close> of these
  functions is a type error.
\<close>

definition str_field :: "pyval \<Rightarrow> string option" where
  "str_field v = (case v of PStr s \<Rightarrow> Some s | _ \<Rightarrow> None)"

definition float_field :: "pyval \<Rightarrow> pyfloat option" where
  "float_field v =
     (case v of
        PFloat f \<Rightarrow> Some f
      | PInt i \<Rightarrow> Some (Fin (of_int i))
      | PBool b \<Rightarrow> Some (Fin (if b then 1 else 0))
      | PStr s \<Rightarrow> py_float s
      | _ \<Rightarrow> None)"

definition optional_float_field :: "pyval \<Rightarrow> pyfloat option option" where
  "optional_float_field v = (case v of PNone \<Rightarrow> Some None | _ \<Rightarrow> map_option Some (float_field v))"

text \<open>The two validators of the class.\<close>

definition validate_positive_numbers :: "pyfloat option \<Rightarrow> exn + pyfloat option" where
  "validate_positive_numbers v =
     (case v of
        None \<Rightarrow> Inr v
      | Some f \<Rightarrow> if float_lt0 f then Inl (Exn ValueError ''Value must be positive'') else Inr v)"

definition validate_not_empty :: "string \<Rightarrow> exn + string" where
  "validate_not_empty v =
     (if v = [] \<or> strip v = [] then Inl (Exn ValueError ''Value cannot be empty'')
      else Inr (strip v))"

text \<open>
  \<open>CryptoData(crypto_id=..., ...)\<close>: each field is coerced to its type, checked against
  its \<open>Field\<close> constraint (\<open>gt=0\<close> for the price, \<open>ge=0\<close> for market cap and volume) and
  passed through its validator. Any failure, a validator's ValueError included, is
  reported as one ValidationError.
\<close>

definition invalid :: "exn + 'a" where
  "invalid = Inl (Exn ValidationError ''validation error for CryptoData'')"

definition id_like :: "pyval \<Rightarrow> exn + string" where
  "id_like v =
     (case str_field v of
        None \<Rightarrow> invalid
      | Some s \<Rightarrow> (case validate_not_empty s of Inl e \<Rightarrow> invalid | Inr s' \<Rightarrow> Inr s'))"

definition price_like :: "pyval \<Rightarrow> exn + pyfloat" where
  "price_like v =
     (case float_field v of
        None \<Rightarrow> invalid
      | Some f \<Rightarrow>
          if \<not> float_gt0 f then invalid
          else (case validate_positive_numbers (Some f) of Inl e \<Rightarrow> invalid | Inr _ \<Rightarrow> Inr f))"

definition amount_like :: "pyval \<Rightarrow> exn + pyfloat option" where
  "amount_like v =
     (case optional_float_field v of
        None \<Rightarrow> invalid
      | Some None \<Rightarrow> Inr None
      | Some (Some f) \<Rightarrow>
          if \<not> float_ge0 f then invalid
          else (case validate_positive_numbers (Some f) of Inl e \<Rightarrow> invalid | Inr x \<Rightarrow> Inr x))"

definition change_like :: "pyval \<Rightarrow> exn + pyfloat option" where
  "change_like v = (case optional_float_field v of None \<Rightarrow> invalid | Some x \<Rightarrow> Inr x)"

definition CryptoData_init ::
  "pyval \<Rightarrow> pyval \<Rightarrow> pyval \<Rightarrow> pyval \<Rightarrow> pyval \<Rightarrow> pyval \<Rightarrow> string \<Rightarrow> nat \<Rightarrow> exn + CryptoData" where
  "CryptoData_init cid cname price mcap vol change src ts =
     bind (id_like cid) (\<lambda>i.
     bind (id_like cname) (\<lambda>n.
     bind (price_like price) (\<lambda>p.
     bind (amount_like mcap) (\<lambda>m.
     bind (amount_like vol) (\<lambda>v.
     bind (change_like change) (\<lambda>c.
       Inr \<lparr>crypto_id = i, crypto_name = n, price_usd = p, market_cap_usd = m,
            volume_24h_usd = v, change_24h_percent = c, source = src, timestamp = ts\<rparr>))))))"

section \<open>Transformers (ingestion/transformers.py)\<close>

text \<open>
  The three transformers share one loop: \<open>for item in raw_data: try: ... except (...)\<close>.
  \<open>item_fn\<close> is the body of the \<open>try\<close>, \<open>caught\<close> the exception classes of the
  \<open>except\<close> clause. A caught exception counts one error and the loop continues; any
  other exception leaves the loop and the transformer. The result is the list
  \<open>transformed\<close> and the counter \<open>errors\<close> (which the source only prints).
\<close>

fun transform_loop ::
  "(pyval \<Rightarrow> exn + CryptoData) \<Rightarrow> exn_kind list \<Rightarrow> pyval list \<Rightarrow> CryptoData list \<Rightarrow> nat
     \<Rightarrow> exn + (CryptoData list \<times> nat)" where
  "transform_loop item_fn caught [] transformed errors = Inr (transformed, errors)"
| "transform_loop item_fn caught (item # rest) transformed errors =
     (case item_fn item of
        Inr crypto \<Rightarrow> transform_loop item_fn caught rest (transformed @ [crypto]) errors
      | Inl e \<Rightarrow>
          if kind e \<in> set caught then transform_loop item_fn caught rest transformed (errors + 1)
          else Inl e)"

text \<open>The \<open>try\<close> body of \<open>transform_coinpaprika\<close>; \<open>now\<close> is \<open>datetime.utcnow()\<close>.\<close>

definition coinpaprika_item :: "nat \<Rightarrow> pyval \<Rightarrow> exn + CryptoData" where
  "coinpaprika_item now item =
     bind (py_get item ''quotes'' (PDict [])) (\<lambda>q.
     bind (py_get q ''USD'' (PDict [])) (\<lambda>quotes.
     bind (py_get item ''id'' (PStr [])) (\<lambda>cid.
     bind (py_get item ''name'' (PStr [])) (\<lambda>cname.
     bind (py_get quotes ''price'' (PInt 0)) (\<lambda>price.
     bind (py_get quotes ''market_cap'' PNone) (\<lambda>mcap.
     bind (py_get quotes ''volume_24h'' PNone) (\<lambda>vol.
     bind (py_get quotes ''percent_change_24h'' PNone) (\<lambda>change.
       CryptoData_init cid cname price mcap vol change ''coinpaprika'' now))))))))"

definition transform_coinpaprika_counted :: "nat \<Rightarrow> pyval list \<Rightarrow> exn + (CryptoData list \<times> nat)" where
  "transform_coinpaprika_counted now raw_data =
     transform_loop (coinpaprika_item now) [ValidationError, KeyError, TypeError] raw_data [] 0"

definition transform_coinpaprika :: "nat \<Rightarrow> pyval list \<Rightarrow> exn + CryptoData list" where
  "transform_coinpaprika now raw_data = bind (transform_coinpaprika_counted now raw_data) (\<lambda>r. Inr (fst r))"

definition coingecko_item :: "nat \<Rightarrow> pyval \<Rightarrow> exn + CryptoData" where
  "coingecko_item now item =
     bind (py_get item ''id'' (PStr [])) (\<lambda>cid.
     bind (py_get item ''name'' (PStr [])) (\<lambda>cname.
     bind (py_get item ''current_price'' (PInt 0)) (\<lambda>price.
     bind (py_get item ''market_cap'' PNone) (\<lambda>mcap.
     bind (py_get item ''total_volume'' PNone) (\<lambda>vol.
     bind (py_get item ''price_change_percentage_24h'' PNone) (\<lambda>change.
       CryptoData_init cid cname price mcap vol change ''coingecko'' now))))))"

definition transform_coingecko_counted :: "nat \<Rightarrow> pyval list \<Rightarrow> exn + (CryptoData list \<times> nat)" where
  "transform_coingecko_counted now raw_data =
     transform_loop (coingecko_item now) [ValidationError, KeyError, TypeError] raw_data [] 0"

definition transform_coingecko :: "nat \<Rightarrow> pyval list \<Rightarrow> exn + CryptoData list" where
  "transform_coingecko now raw_data = bind (transform_coingecko_counted now raw_data) (\<lambda>r. Inr (fst r))"

text \<open>
  \<open>float(str(x).replace(',', '')) if x else dflt\<close>, the conversion \<open>transform_csv\<close>
  applies to its three numeric fields.
\<close>

definition csv_number :: "(pyval \<Rightarrow> string) \<Rightarrow> pyval \<Rightarrow> pyval \<Rightarrow> exn + pyval" where
  "csv_number repr x dflt =
     (if truthy x then
        (case py_float (remove_commas (py_str repr x)) of
           None \<Rightarrow> Inl (Exn ValueError ''could not convert string to float'')
         | Some f \<Rightarrow> Inr (PFloat f))
      else Inr dflt)"

text \<open>\<open>item.get(key) or item.get(legacy, dflt)\<close>\<close>

definition get_or :: "pyval \<Rightarrow> string \<Rightarrow> string \<Rightarrow> pyval \<Rightarrow> exn + pyval" where
  "get_or item key legacy dflt =
     bind (py_get item key PNone) (\<lambda>a. if truthy a then Inr a else py_get item legacy dflt)"

definition csv_item :: "(pyval \<Rightarrow> string) \<Rightarrow> nat \<Rightarrow> pyval \<Rightarrow> exn + CryptoData" where
  "csv_item repr now item =
     bind (get_or item ''price_usd'' ''price'' (PStr ''0'')) (\<lambda>price_raw.
     bind (get_or item ''market_cap_usd'' ''market_cap'' PNone) (\<lambda>market_cap_raw.
     bind (get_or item ''volume_24h_usd'' ''volume'' PNone) (\<lambda>volume_raw.
     bind (csv_number repr price_raw (PFloat (Fin 0))) (\<lambda>price.
     bind (csv_number repr market_cap_raw PNone) (\<lambda>mcap.
     bind (csv_number repr volume_raw PNone) (\<lambda>vol.
     bind (py_get item ''id'' (PStr [])) (\<lambda>cid.
     bind (py_get item ''name'' (PStr [])) (\<lambda>cname.
       CryptoData_init (PStr (strip (lower (py_str repr cid)))) (PStr (strip (py_str repr cname)))
         price mcap vol PNone ''csv'' now))))))))"

definition transform_csv_counted ::
  "(pyval \<Rightarrow> string) \<Rightarrow> nat \<Rightarrow> pyval list \<Rightarrow> exn + (CryptoData list \<times> nat)" where
  "transform_csv_counted repr now raw_data =
     transform_loop (csv_item repr now) [ValidationError, KeyError, TypeError, ValueError] raw_data [] 0"

definition transform_csv :: "(pyval \<Rightarrow> string) \<Rightarrow> nat \<Rightarrow> pyval list \<Rightarrow> exn + CryptoData list" where
  "transform_csv repr now raw_data = bind (transform_csv_counted repr now raw_data) (\<lambda>r. Inr (fst r))"

section \<open>The database and its session (services/database.py)\<close>

text \<open>
  One record per table row. Surrogate keys and \<open>created_at\<close> columns are kept only where
  the pipeline reads them (the key of \<open>etl_runs\<close>). Times are seconds on a clock.
\<close>

record RawAPIData =
  api_source :: string
  api_raw_data :: pyval

record CleanedData =
  data_source :: string
  cl_crypto_id :: string
  cl_crypto_name :: string
  cl_price_usd :: pyfloat
  cl_market_cap_usd :: "pyfloat option"
  cl_volume_24h_usd :: "pyfloat option"
  cl_change_24h_percent :: "pyfloat option"
  normalized_data :: CryptoData

record ETLCheckpoint =
  cp_source :: string
  last_processed_id :: int
  last_processed_timestamp :: "nat option"
  updated_at :: nat

record ETLRun =
  run_pk :: nat
  started_at :: nat
  ended_at :: "nat option"
  records_processed :: int
  success :: bool
  error_message :: "string option"
  run_source :: string

record db =
  raw_api_data :: "RawAPIData list"
  raw_csv_data :: "pyval list"
  cleaned_data :: "CleanedData list"
  etl_checkpoints :: "ETLCheckpoint list"
  etl_runs :: "ETLRun list"

datatype http_result = Transport_error string | Response nat "pyval option"

text \<open>
  The state a pipeline call runs in: the \<open>ETLPipeline\<close> object (\<open>run_id\<close>, \<open>start_time\<close>
  and its database session) together with everything outside the program that it reads
  or changes.
  \<^item> \<open>stored\<close> is the committed content of the database; \<open>session\<close> is what the session
    sees: the committed content with the session's uncommitted additions and changes.
    \<open>commit\<close> makes \<open>session\<close> the stored content, \<open>rollback\<close> resets \<open>session\<close> to it.
  \<^item> \<open>commit_outcome k\<close> is what the \<open>k\<close>-th commit does: \<open>None\<close> when it succeeds,
    \<open>Some msg\<close> when it raises with message \<open>msg\<close>. Queries, \<open>add\<close> and \<open>rollback\<close>
    do not fail.
  \<^item> \<open>paprika_http k\<close> and \<open>gecko_http k\<close> are the outcomes of the \<open>k\<close>-th HTTP request to
    each API: a transport error, or a response with its status code and its body as
    parsed JSON (\<open>None\<close> when the body is not JSON).
  \<^item> \<open>csv_file\<close> is the CSV file: absent (\<open>None\<close>), unreadable with a message, or its
    rows.
  \<^item> \<open>recursion_limit\<close> is the call depth the interpreter still allows.
  \<^item> \<open>printed\<close> holds the banner each ingestion method prints when it is entered (the
    other progress messages are left out); \<open>slept\<close> is the time spent in \<open>time.sleep\<close>.
  \<^item> \<open>py_repr\<close> is the interpreter's \<open>repr\<close> (see \<open>py_str\<close>).
\<close>

record world =
  stored :: db
  session :: db
  run_id :: "nat option"
  start_time :: "nat option"
  clock :: nat
  printed :: "string list"
  slept :: nat
  commits :: nat
  commit_outcome :: "nat \<Rightarrow> string option"
  recursion_limit :: nat
  paprika_requests :: nat
  paprika_http :: "nat \<Rightarrow> http_result"
  gecko_requests :: nat
  gecko_http :: "nat \<Rightarrow> http_result"
  csv_file :: "(string + pyval list) option"
  py_repr :: "pyval \<Rightarrow> string"

definition db_commit :: "world \<Rightarrow> (exn + unit) \<times> world" where
  "db_commit w =
     (case commit_outcome w (commits w) of
        None \<Rightarrow> (Inr (), w\<lparr>stored := session w, commits := Suc (commits w)\<rparr>)
      | Some msg \<Rightarrow> (Inl (Exn DatabaseError msg), w\<lparr>commits := Suc (commits w)\<rparr>))"

definition db_rollback :: "world \<Rightarrow> world" where
  "db_rollback w = w\<lparr>session := stored w\<rparr>"

definition sleep :: "nat \<Rightarrow> world \<Rightarrow> world" where
  "sleep n w = w\<lparr>slept := slept w + n, clock := clock w + n\<rparr>"

section \<open>Source extractors (ingestion/sources)\<close>

text \<open>\<open>response.raise_for_status()\<close> raises for the status codes 400 to 599.\<close>

definition is_error_status :: "nat \<Rightarrow> bool" where
  "is_error_status code = (400 \<le> code \<and> code < 600)"

text \<open>What follows \<open>raise_for_status\<close> in both clients: parse the body, print its length, return it.\<close>

definition response_data :: "nat \<Rightarrow> pyval option \<Rightarrow> exn + pyval" where
  "response_data code body =
     (if is_error_status code then Inl (Exn HTTPError ''HTTP error status'')
      else
        (case body of
           None \<Rightarrow> Inl (Exn JSONDecodeError ''response body is not JSON'')
         | Some data \<Rightarrow> bind (py_len data) (\<lambda>n. Inr data)))"

text \<open>
  \<open>CoinPaprikaClient.get_tickers\<close>. On status 429 it sleeps 60 seconds and calls itself;
  the first argument is the call depth left, and a call with none left raises
  RecursionError. The \<open>except RequestException\<close> clause prints and re-raises.
\<close>

fun get_tickers :: "nat \<Rightarrow> nat \<Rightarrow> world \<Rightarrow> (exn + pyval) \<times> world" where
  "get_tickers 0 limit w = (Inl (Exn RecursionError ''maximum recursion depth exceeded''), w)"
| "get_tickers (Suc depth) limit w =
     (let w1 = w\<lparr>paprika_requests := Suc (paprika_requests w)\<rparr> in
      case paprika_http w (paprika_requests w) of
        Transport_error msg \<Rightarrow> (Inl (Exn ConnectionError msg), w1)
      | Response code body \<Rightarrow>
          if code = 429 then get_tickers depth limit (sleep 60 w1)
          else (response_data code body, w1))"

text \<open>\<open>CoinGeckoClient.get_coins_markets\<close>: one request, no handling of status 429.\<close>

definition get_coins_markets :: "nat \<Rightarrow> world \<Rightarrow> (exn + pyval) \<times> world" where
  "get_coins_markets limit w =
     (let w1 = w\<lparr>gecko_requests := Suc (gecko_requests w)\<rparr> in
      case gecko_http w (gecko_requests w) of
        Transport_error msg \<Rightarrow> (Inl (Exn ConnectionError msg), w1)
      | Response code body \<Rightarrow> (response_data code body, w1))"

text \<open>\<open>CSVReader.read\<close>\<close>

definition csv_read :: "world \<Rightarrow> (exn + pyval) \<times> world" where
  "csv_read w =
     (case csv_file w of
        None \<Rightarrow> (Inl (Exn FileNotFoundError ''CSV file not found''), w)
      | Some (Inl msg) \<Rightarrow> (Inl (Exn CSVParseError msg), w)
      | Some (Inr rows) \<Rightarrow> (Inr (PList rows), w))"

section \<open>The pipeline (ingestion/etl.py)\<close>

subsection \<open>Checkpoint management\<close>

definition get_checkpoint :: "string \<Rightarrow> world \<Rightarrow> int" where
  "get_checkpoint src w =
     (case find (\<lambda>c. cp_source c = src) (etl_checkpoints (session w)) of
        Some checkpoint \<Rightarrow> last_processed_id checkpoint
      | None \<Rightarrow> 0)"

text \<open>Change the first row that satisfies \<open>P\<close>: the object \<open>.first()\<close> returned.\<close>

fun update_first :: "('a \<Rightarrow> bool) \<Rightarrow> ('a \<Rightarrow> 'a) \<Rightarrow> 'a list \<Rightarrow> 'a list" where
  "update_first P f [] = []"
| "update_first P f (x # xs) = (if P x then f x # xs else x # update_first P f xs)"

definition update_checkpoint :: "string \<Rightarrow> int \<Rightarrow> world \<Rightarrow> (exn + unit) \<times> world" where
  "update_checkpoint src last_id w =
     (let cps = etl_checkpoints (session w);
          cps' =
            (case find (\<lambda>c. cp_source c = src) cps of
               Some checkpoint \<Rightarrow>
                 update_first (\<lambda>c. cp_source c = src)
                   (\<lambda>c. c\<lparr>last_processed_id := last_id,
                           last_processed_timestamp := Some (clock w),
                           updated_at := clock w\<rparr>) cps
             | None \<Rightarrow>
                 cps @ [\<lparr>cp_source = src, last_processed_id = last_id,
                         last_processed_timestamp = Some (clock w), updated_at = clock w\<rparr>])
      in db_commit (w\<lparr>session := (session w)\<lparr>etl_checkpoints := cps'\<rparr>\<rparr>))"

subsection \<open>Run tracking\<close>

text \<open>The key an inserted run gets: one more than the largest key in the table.\<close>

definition next_run_pk :: "ETLRun list \<Rightarrow> nat" where
  "next_run_pk runs = Suc (foldr max (map run_pk runs) 0)"

definition start_run :: "string \<Rightarrow> world \<Rightarrow> (exn + unit) \<times> world" where
  "start_run src w =
     (let w1 = w\<lparr>start_time := Some (clock w)\<rparr>;
          pk = next_run_pk (etl_runs (session w1));
          run = \<lparr>run_pk = pk, started_at = clock w, ended_at = None, records_processed = 0,
                 success = False, error_message = None, run_source = src\<rparr>;
          w2 = w1\<lparr>session := (session w1)\<lparr>etl_runs := etl_runs (session w1) @ [run]\<rparr>\<rparr>
      in case db_commit w2 of
           (Inl e, w3) \<Rightarrow> (Inl e, w3)
         | (Inr _, w3) \<Rightarrow> (Inr (), w3\<lparr>run_id := Some pk\<rparr>))"

definition end_run :: "int \<Rightarrow> bool \<Rightarrow> string option \<Rightarrow> world \<Rightarrow> (exn + unit) \<times> world" where
  "end_run processed ok err w =
     (case run_id w of
        None \<Rightarrow> (Inr (), w)
      | Some rid \<Rightarrow>
          if rid = 0 then (Inr (), w)
          else
            (case find (\<lambda>r. run_pk r = rid) (etl_runs (session w)) of
               None \<Rightarrow> (Inr (), w)
             | Some run \<Rightarrow>
                 db_commit (w\<lparr>session := (session w)\<lparr>etl_runs :=
                   update_first (\<lambda>r. run_pk r = rid)
                     (\<lambda>r. r\<lparr>ended_at := Some (clock w), records_processed := processed,
                             success := ok, error_message := err\<rparr>)
                     (etl_runs (session w))\<rparr>\<rparr>)))"

subsection \<open>Ingestion methods\<close>

definition to_cleaned :: "CryptoData \<Rightarrow> CleanedData" where
  "to_cleaned crypto =
     \<lparr>data_source = source crypto, cl_crypto_id = crypto_id crypto,
      cl_crypto_name = crypto_name crypto, cl_price_usd = price_usd crypto,
      cl_market_cap_usd = market_cap_usd crypto, cl_volume_24h_usd = volume_24h_usd crypto,
      cl_change_24h_percent = change_24h_percent crypto, normalized_data = crypto\<rparr>"

text \<open>
  The three ingestion methods are the same code up to the extractor called, the raw
  table written, the transformer and the checkpoint name. \<open>ingest_try\<close> is the body of
  their \<open>try\<close>: extract, add and commit the raw items, transform, add and commit the
  cleaned records, update the checkpoint, return the number loaded.
\<close>

definition ingest_try ::
  "(world \<Rightarrow> (exn + pyval) \<times> world) \<Rightarrow> (pyval \<Rightarrow> db \<Rightarrow> db)
     \<Rightarrow> (nat \<Rightarrow> pyval list \<Rightarrow> exn + CryptoData list) \<Rightarrow> string \<Rightarrow> world \<Rightarrow> (exn + int) \<times> world" where
  "ingest_try extract add_raw transform cp_name w =
     (case extract w of
        (Inl e, w1) \<Rightarrow> (Inl e, w1)
      | (Inr raw_data, w1) \<Rightarrow>
     (case py_iter raw_data of
        Inl e \<Rightarrow> (Inl e, w1)
      | Inr items \<Rightarrow>
     (case db_commit (w1\<lparr>session := foldl (\<lambda>d item. add_raw item d) (session w1) items\<rparr>) of
        (Inl e, w2) \<Rightarrow> (Inl e, w2)
      | (Inr _, w2) \<Rightarrow>
     (case transform (clock w2) items of
        Inl e \<Rightarrow> (Inl e, w2)
      | Inr transformed \<Rightarrow>
     (case db_commit (w2\<lparr>session := (session w2)\<lparr>cleaned_data :=
               cleaned_data (session w2) @ map to_cleaned transformed\<rparr>\<rparr>) of
        (Inl e, w3) \<Rightarrow> (Inl e, w3)
      | (Inr _, w3) \<Rightarrow>
     (case update_checkpoint cp_name (int (length transformed)) w3 of
        (Inl e, w4) \<Rightarrow> (Inl e, w4)
      | (Inr _, w4) \<Rightarrow> (Inr (int (length transformed)), w4)))))))"

text \<open>The method: print the banner, run the body, and on any exception roll back and re-raise.\<close>

definition ingest ::
  "string \<Rightarrow> (world \<Rightarrow> (exn + pyval) \<times> world) \<Rightarrow> (pyval \<Rightarrow> db \<Rightarrow> db)
     \<Rightarrow> (nat \<Rightarrow> pyval list \<Rightarrow> exn + CryptoData list) \<Rightarrow> string \<Rightarrow> world \<Rightarrow> (exn + int) \<times> world" where
  "ingest banner extract add_raw transform cp_name w =
     (case ingest_try extract add_raw transform cp_name (w\<lparr>printed := printed w @ [banner]\<rparr>) of
        (Inl e, w') \<Rightarrow> (Inl e, db_rollback w')
      | (Inr n, w') \<Rightarrow> (Inr n, w'))"

definition add_raw_api :: "string \<Rightarrow> pyval \<Rightarrow> db \<Rightarrow> db" where
  "add_raw_api src item d =
     d\<lparr>raw_api_data := raw_api_data d @ [\<lparr>api_source = src, api_raw_data = item\<rparr>]\<rparr>"

definition add_raw_csv :: "pyval \<Rightarrow> db \<Rightarrow> db" where
  "add_raw_csv item d = d\<lparr>raw_csv_data := raw_csv_data d @ [item]\<rparr>"

definition ingest_from_coinpaprika :: "nat \<Rightarrow> world \<Rightarrow> (exn + int) \<times> world" where
  "ingest_from_coinpaprika limit w =
     ingest ''COINPAPRIKA INGESTION'' (\<lambda>w'. get_tickers (recursion_limit w') limit w')
       (add_raw_api ''coinpaprika'') transform_coinpaprika ''coinpaprika'' w"

definition ingest_from_coingecko :: "nat \<Rightarrow> world \<Rightarrow> (exn + int) \<times> world" where
  "ingest_from_coingecko limit w =
     ingest ''COINGECKO INGESTION'' (get_coins_markets limit)
       (add_raw_api ''coingecko'') transform_coingecko ''coingecko'' w"

definition ingest_from_csv :: "world \<Rightarrow> (exn + int) \<times> world" where
  "ingest_from_csv w =
     ingest ''CSV INGESTION'' csv_read add_raw_csv (transform_csv (py_repr w)) ''csv'' w"

subsection \<open>The main run\<close>

text \<open>
  The three guarded ingestion calls at the start of the \<open>try\<close> block of \<open>run\<close>. The
  result carries \<open>total_records\<close> as it stands when the calls are done or one has raised.
\<close>

definition run_sources :: "string list \<Rightarrow> world \<Rightarrow> (exn + unit) \<times> int \<times> world" where
  "run_sources sources w =
     (case (if ''coinpaprika'' \<in> set sources then ingest_from_coinpaprika 10 w else (Inr 0, w)) of
        (Inl e, w1) \<Rightarrow> (Inl e, 0, w1)
      | (Inr c1, w1) \<Rightarrow>
     (case (if ''coingecko'' \<in> set sources then ingest_from_coingecko 10 w1 else (Inr 0, w1)) of
        (Inl e, w2) \<Rightarrow> (Inl e, c1, w2)
      | (Inr c2, w2) \<Rightarrow>
     (case (if ''csv'' \<in> set sources then ingest_from_csv w2 else (Inr 0, w2)) of
        (Inl e, w3) \<Rightarrow> (Inl e, c1 + c2, w3)
      | (Inr c3, w3) \<Rightarrow> (Inr (), c1 + c2 + c3, w3))))"

text \<open>The \<open>except Exception as e\<close> clause of \<open>run\<close>.\<close>

definition run_failed :: "exn \<Rightarrow> int \<Rightarrow> world \<Rightarrow> (exn + bool) \<times> world" where
  "run_failed e total_records w =
     (case end_run total_records False (Some (message e)) w of
        (Inl e', w') \<Rightarrow> (Inl e', w')
      | (Inr _, w') \<Rightarrow> (Inr False, w'))"

definition default_sources :: "string list" where
  "default_sources = [''coinpaprika'', ''coingecko'', ''csv'']"

definition run :: "string list option \<Rightarrow> world \<Rightarrow> (exn + bool) \<times> world" where
  "run sources_arg w =
     (let sources = (case sources_arg of None \<Rightarrow> default_sources | Some l \<Rightarrow> l) in
      case start_run (join '','' sources) w of
        (Inl e, w1) \<Rightarrow> (Inl e, w1)
      | (Inr _, w1) \<Rightarrow>
          (case run_sources sources w1 of
             (Inl e, total_records, w2) \<Rightarrow> run_failed e total_records w2
           | (Inr _, total_records, w2) \<Rightarrow>
               (case end_run total_records True None w2 of
                  (Inl e, w3) \<Rightarrow> run_failed e total_records w3
                | (Inr _, w3) \<Rightarrow> (Inr True, w3))))"

section \<open>Notions used to state the properties\<close>

text \<open>The rules of the unified schema, as a predicate on a record.\<close>

definition amount_ok :: "pyfloat option \<Rightarrow> bool" where
  "amount_ok a = (case a of None \<Rightarrow> True | Some f \<Rightarrow> float_ge0 f)"

definition valid_record :: "CryptoData \<Rightarrow> bool" where
  "valid_record r =
     (float_gt0 (price_usd r) \<and> strip (crypto_id r) \<noteq> [] \<and> strip (crypto_name r) \<noteq> []
      \<and> amount_ok (market_cap_usd r) \<and> amount_ok (volume_24h_usd r))"

definition is_dict :: "pyval \<Rightarrow> bool" where
  "is_dict v = (case v of PDict kvs \<Rightarrow> True | _ \<Rightarrow> False)"




text \<open>
  The records of the items on which the body of a transformer's \<open>try\<close> succeeds, in the
  order of the items, and the number of items on which it raises.
\<close>

definition kept :: "(pyval \<Rightarrow> exn + CryptoData) \<Rightarrow> pyval list \<Rightarrow> CryptoData list" where
  "kept item_fn items =
     List.map_filter (\<lambda>item. case item_fn item of Inl e \<Rightarrow> None | Inr r \<Rightarrow> Some r) items"

definition skipped :: "(pyval \<Rightarrow> exn + CryptoData) \<Rightarrow> pyval list \<Rightarrow> nat" where
  "skipped item_fn items = length (filter (\<lambda>item. isl (item_fn item)) items)"

text \<open>Successive calls \<open>update_checkpoint(s, c1)\<close>, ..., \<open>update_checkpoint(s, cN)\<close>; a call that raises ends the sequence.\<close>

fun update_checkpoints :: "string \<Rightarrow> int list \<Rightarrow> world \<Rightarrow> (exn + unit) \<times> world" where
  "update_checkpoints s [] w = (Inr (), w)"
| "update_checkpoints s (c # cs) w =
     (case update_checkpoint s c w of
        (Inl e, w') \<Rightarrow> (Inl e, w')
      | (Inr _, w') \<Rightarrow> update_checkpoints s cs w')"

text \<open>
  A fresh pipeline object on an empty database, in surroundings where every commit
  succeeds, both APIs answer every request with status 200 and an empty list, and the
  CSV file has no rows.
\<close>

definition repr0 :: "pyval \<Rightarrow> string" where
  "repr0 = (\<lambda>v. ''<repr>'')"

definition empty_db :: db where
  "empty_db = \<lparr>raw_api_data = [], raw_csv_data = [], cleaned_data = [], etl_checkpoints = [],
                etl_runs = []\<rparr>"

definition world0 :: world where
  "world0 =
     \<lparr>stored = empty_db, session = empty_db, run_id = None, start_time = None, clock = 0,
      printed = [], slept = 0, commits = 0, commit_outcome = (\<lambda>k. None),
      recursion_limit = 1000, paprika_requests = 0,
      paprika_http = (\<lambda>k. Response 200 (Some (PList []))), gecko_requests = 0,
      gecko_http = (\<lambda>k. Response 200 (Some (PList []))), csv_file = Some (Inr []),
      py_repr = repr0\<rparr>"

text \<open>Raw items used as examples.\<close>

definition paprika_bitcoin :: pyval where
  "paprika_bitcoin =
     PDict [(''id'', PStr ''btc-bitcoin''), (''name'', PStr ''Bitcoin''),
            (''quotes'', PDict [(''USD'', PDict [(''price'', PFloat (Fin 50000)),
               (''market_cap'', PFloat (Fin 1000000000000)),
               (''volume_24h'', PFloat (Fin 50000000000)),
               (''percent_change_24h'', PFloat (Fin 2.5))])])]"

definition paprika_null_quotes :: pyval where
  "paprika_null_quotes =
     PDict [(''id'', PStr ''xyz-coin''), (''name'', PStr ''Xyz''), (''quotes'', PNone)]"

definition csv_row_bitcoin :: "(string \<times> pyval) list" where
  "csv_row_bitcoin =
     [(''id'', PStr '' BitCoin ''), (''name'', PStr ''Bitcoin''), (''price'', PStr ''42,000.50''),
      (''market_cap'', PStr ''800000000000'')]"

definition csv_row_no_name :: "(string \<times> pyval) list" where
  "csv_row_no_name =
     [(''id'', PStr ''bitcoin''), (''price'', PStr ''42,000.50''),
      (''market_cap'', PStr ''800000000000'')]"

definition csv_row_bad_cap :: "(string \<times> pyval) list" where
  "csv_row_bad_cap =
     [(''id'', PStr ''bitcoin''), (''name'', PStr ''Bitcoin''), (''price'', PStr ''100''),
      (''market_cap'', PStr ''n/a'')]"

definition csv_row_empty_usd :: "(string \<times> pyval) list" where
  "csv_row_empty_usd =
     [(''id'', PStr ''bitcoin''), (''name'', PStr ''Bitcoin''), (''price_usd'', PStr []),
      (''price'', PStr ''5'')]"

definition csv_row_both :: "(string \<times> pyval) list" where
  "csv_row_both =
     [(''id'', PStr ''bitcoin''), (''name'', PStr ''Bitcoin''), (''price_usd'', PStr ''7'')]"

text \<open>What a response that is not a 429 makes of a call: the failure or the data.\<close>

definition outcome :: "http_result \<Rightarrow> exn + pyval" where
  "outcome r =
     (case r of
        Transport_error msg \<Rightarrow> Inl (Exn ConnectionError msg)
      | Response code body \<Rightarrow> response_data code body)"

text \<open>A response with status 429.\<close>

definition rate_limited :: "http_result \<Rightarrow> bool" where
  "rate_limited r = (case r of Response code body \<Rightarrow> code = 429 | _ \<Rightarrow> False)"

text \<open>Surroundings in which CoinPaprika answers 429 twice and then 200 with one ticker.\<close>

definition world_429 :: world where
  "world_429 =
     world0\<lparr>paprika_http :=
       (\<lambda>k. if k < 2 then Response 429 None else Response 200 (Some (PList [paprika_bitcoin])))\<rparr>"

section \<open>Properties\<close>

subsection \<open>Evaluation\<close>

text \<open>The defining equations that evaluate the model on concrete inputs.\<close>

lemmas value_defs = bind_def py_get_def py_len_def py_iter_def

lemmas string_defs =
  is_space_def strip_def lower_char_def lower_def remove_commas_def is_digit_def digit_val_def
  nat_of_digits_def show_int_def py_str_def is_cspace_def cstrip_def take_sign_def
  parse_exponent_def scale10_def parse_number_def py_float_def digit_char_def

lemmas schema_defs =
  str_field_def float_field_def optional_float_field_def validate_positive_numbers_def
  validate_not_empty_def invalid_def id_like_def price_like_def amount_like_def change_like_def
  CryptoData_init_def

lemmas transformer_defs =
  coinpaprika_item_def transform_coinpaprika_counted_def transform_coinpaprika_def
  coingecko_item_def transform_coingecko_counted_def transform_coingecko_def
  get_or_def csv_number_def csv_item_def transform_csv_counted_def transform_csv_def

lemmas example_defs =
  repr0_def paprika_bitcoin_def paprika_null_quotes_def csv_row_bitcoin_def csv_row_no_name_def
  csv_row_bad_cap_def csv_row_empty_usd_def csv_row_both_def

subsection \<open>Lists and the session\<close>

lemma find_filter: "find P xs = (case filter P xs of [] \<Rightarrow> None | x # r \<Rightarrow> Some x)"
  by (induction xs) auto

lemma filter_update_first:
  "(\<And>x. P (f x) = P x) \<Longrightarrow>
   filter P (update_first P f xs) = (case filter P xs of [] \<Rightarrow> [] | x # r \<Rightarrow> f x # r)"
  by (induction xs) auto

lemma filter_update_first_other:
  "(\<And>x. P x \<Longrightarrow> \<not> Q (f x)) \<Longrightarrow> (\<And>x. P x \<Longrightarrow> \<not> Q x)
     \<Longrightarrow> filter Q (update_first P f xs) = filter Q xs"
  by (induction xs) auto

lemma db_commit_ok:
  "db_commit w = (Inr u, w') \<Longrightarrow>
     stored w' = session w \<and> session w' = session w \<and> commit_outcome w (commits w) = None"
  by (auto simp: db_commit_def split: option.splits)

subsection \<open>Checkpoints\<close>

lemma update_checkpoint_one:
  assumes "update_checkpoint s c w = (Inr u, w')"
    and "length (filter (\<lambda>r. cp_source r = s) (etl_checkpoints (session w))) \<le> 1"
  shows "\<exists>row. filter (\<lambda>r. cp_source r = s) (etl_checkpoints (session w')) = [row]
            \<and> last_processed_id row = c"
    and "stored w' = session w'"
    and "filter (\<lambda>r. cp_source r \<noteq> s) (etl_checkpoints (session w'))
           = filter (\<lambda>r. cp_source r \<noteq> s) (etl_checkpoints (session w))"
  using assms
  unfolding update_checkpoint_def Let_def
  by (auto dest!: db_commit_ok simp: find_filter filter_update_first filter_update_first_other
      split: option.splits list.splits)

lemma update_checkpoints_all:
  assumes "update_checkpoints s cs w = (Inr u, w')" and "cs \<noteq> []"
    and "length (filter (\<lambda>r. cp_source r = s) (etl_checkpoints (session w))) \<le> 1"
  shows "(\<exists>row. filter (\<lambda>r. cp_source r = s) (etl_checkpoints (session w')) = [row]
            \<and> last_processed_id row = last cs)
       \<and> stored w' = session w'
       \<and> filter (\<lambda>r. cp_source r \<noteq> s) (etl_checkpoints (session w'))
           = filter (\<lambda>r. cp_source r \<noteq> s) (etl_checkpoints (session w))"
  using assms
proof (induction cs arbitrary: w)
  case Nil
  then show ?case by simp
next
  case (Cons c cs)
  from Cons.prems(1) obtain w1 where
    step: "update_checkpoint s c w = (Inr (), w1)" and rest: "update_checkpoints s cs w1 = (Inr u, w')"
    by (auto split: prod.splits sum.splits)
  note one = update_checkpoint_one[OF step Cons.prems(3)]
  show ?case
  proof (cases "cs = []")
    case True
    with rest have "w' = w1" by simp
    with one True show ?thesis by simp
  next
    case False
    from one(1) have "length (filter (\<lambda>r. cp_source r = s) (etl_checkpoints (session w1))) \<le> 1"
      by auto
    from Cons.IH[OF rest False this] one(3) False show ?thesis by simp
  qed
qed

text \<open>
  Claim C4. \<open>update_checkpoint\<close> is an upsert keyed by the source name. Take a session
  with no uncommitted changes whose store holds at most one checkpoint row for \<open>s\<close>, and
  \<open>N \<ge> 1\<close> successive calls \<open>update_checkpoint(s, c1)\<close>, ..., \<open>update_checkpoint(s, cN)\<close>
  that all return. Afterwards the store holds exactly one row for \<open>s\<close>, its
  \<open>last_processed_id\<close> is the last cursor written, and the rows of the other sources are
  as they were.
\<close>

theorem update_checkpoint_upsert:
  assumes "cs \<noteq> []"
    and "session w = stored w"
    and "length (filter (\<lambda>r. cp_source r = s) (etl_checkpoints (stored w))) \<le> 1"
    and "update_checkpoints s cs w = (Inr (), w')"
  shows "(\<exists>row. filter (\<lambda>r. cp_source r = s) (etl_checkpoints (stored w')) = [row]
            \<and> last_processed_id row = last cs)
       \<and> filter (\<lambda>r. cp_source r \<noteq> s) (etl_checkpoints (stored w'))
           = filter (\<lambda>r. cp_source r \<noteq> s) (etl_checkpoints (stored w))"
  using update_checkpoints_all[OF assms(4) assms(1)] assms(2,3) by simp

text \<open>
  The scenario of the claim: \<open>update_checkpoint("x", 100)\<close> then
  \<open>update_checkpoint("x", 200)\<close> on an empty store leave one row for \<open>"x"\<close>, with
  cursor 200.
\<close>

theorem update_checkpoint_upsert_witness:
  "\<exists>row. filter (\<lambda>r. cp_source r = ''x'')
            (etl_checkpoints (stored (snd (update_checkpoints ''x'' [100, 200] world0)))) = [row]
         \<and> last_processed_id row = 200"
proof -
  have a: "[100, 200::int] \<noteq> []" by simp
  have b: "session world0 = stored world0" by (simp add: world0_def)
  have c: "length (filter (\<lambda>r. cp_source r = ''x'') (etl_checkpoints (stored world0))) \<le> 1"
    by (simp add: world0_def empty_db_def)
  have d: "update_checkpoints ''x'' [100, 200] world0
             = (Inr (), snd (update_checkpoints ''x'' [100, 200] world0))"
    by (simp add: update_checkpoint_def world0_def empty_db_def db_commit_def Let_def)
  from update_checkpoint_upsert[OF a b c d] show ?thesis by simp
qed

text \<open>
  Claim C8. On a session with no uncommitted changes, \<open>get_checkpoint(s)\<close> returns 0
  when the store has no checkpoint row for \<open>s\<close>, and the stored \<open>last_processed_id\<close> of
  the row for \<open>s\<close> when there is one (the first such row, should the table hold several).
\<close>

theorem get_checkpoint_reads_cursor:
  assumes "session w = stored w"
  shows "((\<forall>c \<in> set (etl_checkpoints (stored w)). cp_source c \<noteq> s) \<longrightarrow> get_checkpoint s w = 0)
       \<and> (\<forall>row rest. filter (\<lambda>c. cp_source c = s) (etl_checkpoints (stored w)) = row # rest
             \<longrightarrow> get_checkpoint s w = last_processed_id row)"
  using assms by (auto simp: get_checkpoint_def find_filter filter_empty_conv split: list.splits)

text \<open>
  The scenario of the claim: \<open>get_checkpoint("unknown-source")\<close> on an empty store is 0;
  and after \<open>update_checkpoint("x", 50)\<close>, \<open>get_checkpoint("x")\<close> is 50.
\<close>

theorem get_checkpoint_reads_cursor_witness:
  "get_checkpoint ''unknown-source'' world0 = 0
   \<and> get_checkpoint ''x'' (snd (update_checkpoint ''x'' 50 world0)) = 50"
proof -
  have a: "session world0 = stored world0" by (simp add: world0_def)
  have e: "\<forall>c \<in> set (etl_checkpoints (stored world0)). cp_source c \<noteq> ''unknown-source''"
    by (simp add: world0_def empty_db_def)
  have b: "session (snd (update_checkpoint ''x'' 50 world0))
             = stored (snd (update_checkpoint ''x'' 50 world0))"
    by (simp add: update_checkpoint_def world0_def empty_db_def db_commit_def Let_def)
  have f: "filter (\<lambda>c. cp_source c = ''x'')
             (etl_checkpoints (stored (snd (update_checkpoint ''x'' 50 world0))))
           = \<lparr>cp_source = ''x'', last_processed_id = 50, last_processed_timestamp = Some 0,
              updated_at = 0\<rparr> # []"
    by (simp add: update_checkpoint_def world0_def empty_db_def db_commit_def Let_def)
  from get_checkpoint_reads_cursor[OF a, of "''unknown-source''"] e
  have "get_checkpoint ''unknown-source'' world0 = 0" by blast
  moreover from get_checkpoint_reads_cursor[OF b, of "''x''"] f
  have "get_checkpoint ''x'' (snd (update_checkpoint ''x'' 50 world0)) = 50" by fastforce
  ultimately show ?thesis by simp
qed

subsection \<open>Strings and the schema\<close>

lemma last_dropWhile_same: "dropWhile P xs \<noteq> [] \<Longrightarrow> last (dropWhile P xs) = last xs"
  by (induction xs) auto

lemma strip_fixed:
  assumes "xs \<noteq> []" "\<not> is_space (hd xs)" "\<not> is_space (last xs)"
  shows "strip xs = xs"
  using assms by (metis dropWhile_eq_self_iff hd_rev rev_rev_ident strip_def)

lemma strip_ends:
  "strip s = [] \<or> (\<not> is_space (hd (strip s)) \<and> \<not> is_space (last (strip s)))"
proof (cases "strip s = []")
  case True
  then show ?thesis by simp
next
  case False
  define t where "t = dropWhile is_space s"
  define u where "u = dropWhile is_space (rev t)"
  have s: "strip s = rev u" by (simp add: strip_def t_def u_def)
  with False have u: "u \<noteq> []" by simp
  then have t: "t \<noteq> []" by (auto simp: u_def)
  have "\<not> is_space (hd u)" using u unfolding u_def by (rule hd_dropWhile)
  moreover have "last u = last (rev t)" using u unfolding u_def by (rule last_dropWhile_same)
  moreover have "\<not> is_space (hd t)" using t unfolding t_def by (rule hd_dropWhile)
  ultimately show ?thesis using s u t by (simp add: hd_rev last_rev)
qed

lemma strip_strip: "strip (strip s) = strip s"
proof (cases "strip s = []")
  case True
  have "strip [] = []" by (simp add: strip_def)
  with True show ?thesis by simp
next
  case False
  with strip_ends[of s] show ?thesis by (intro strip_fixed) auto
qed

lemma id_like_ok: "id_like v = Inr s \<Longrightarrow> s \<noteq> [] \<and> strip s = s"
  by (auto simp: id_like_def validate_not_empty_def invalid_def strip_strip split: option.splits if_splits)

lemma price_like_ok: "price_like v = Inr f \<Longrightarrow> float_gt0 f"
  by (auto simp: price_like_def invalid_def split: option.splits if_splits sum.splits)

lemma amount_like_ok: "amount_like v = Inr a \<Longrightarrow> amount_ok a"
  by (auto simp: amount_like_def amount_ok_def invalid_def validate_positive_numbers_def
      split: option.splits if_splits sum.splits)

lemma bind_Inr: "bind m f = Inr y \<longleftrightarrow> (\<exists>x. m = Inr x \<and> f x = Inr y)"
  by (cases m) (auto simp: bind_def)

lemma bind_Inl: "bind m f = Inl e \<longleftrightarrow> (m = Inl e \<or> (\<exists>x. m = Inr x \<and> f x = Inl e))"
  by (cases m) (auto simp: bind_def)

lemma CryptoData_init_valid:
  assumes "CryptoData_init cid cname price mcap vol change src ts = Inr r"
  shows "valid_record r"
proof -
  from assms obtain i n p m v c where
    i: "id_like cid = Inr i" and n: "id_like cname = Inr n" and p: "price_like price = Inr p"
    and m: "amount_like mcap = Inr m" and v: "amount_like vol = Inr v"
    and r: "r = \<lparr>crypto_id = i, crypto_name = n, price_usd = p, market_cap_usd = m,
            volume_24h_usd = v, change_24h_percent = c, source = src, timestamp = ts\<rparr>"
    unfolding CryptoData_init_def bind_Inr by blast
  from id_like_ok[OF i] id_like_ok[OF n] price_like_ok[OF p] amount_like_ok[OF m]
    amount_like_ok[OF v]
  show ?thesis by (simp add: r valid_record_def)
qed

lemma id_like_raises: "id_like v = Inl e \<Longrightarrow> kind e = ValidationError"
  by (auto simp: id_like_def invalid_def split: option.splits sum.splits)

lemma price_like_raises: "price_like v = Inl e \<Longrightarrow> kind e = ValidationError"
  by (auto simp: price_like_def invalid_def split: option.splits sum.splits if_splits)

lemma amount_like_raises: "amount_like v = Inl e \<Longrightarrow> kind e = ValidationError"
  by (auto simp: amount_like_def invalid_def split: option.splits sum.splits if_splits)

lemma change_like_raises: "change_like v = Inl e \<Longrightarrow> kind e = ValidationError"
  by (auto simp: change_like_def invalid_def split: option.splits)

lemma CryptoData_init_raises:
  "CryptoData_init cid cname price mcap vol change src ts = Inl e \<Longrightarrow> kind e = ValidationError"
  unfolding CryptoData_init_def bind_Inl
  by (elim disjE exE conjE)
    (erule id_like_raises price_like_raises amount_like_raises change_like_raises | simp)+

lemma transform_loop_all:
  assumes "transform_loop item_fn caught items acc errs = Inr (recs, n)"
    and "\<And>item r. item_fn item = Inr r \<Longrightarrow> P r"
    and "\<forall>r \<in> set acc. P r"
  shows "\<forall>r \<in> set recs. P r"
  using assms(1,3)
proof (induction items arbitrary: acc errs)
  case Nil
  then show ?case by simp
next
  case (Cons item rest)
  show ?case
  proof (cases "item_fn item")
    case (Inr crypto)
    with Cons.prems(1) have "transform_loop item_fn caught rest (acc @ [crypto]) errs = Inr (recs, n)"
      by simp
    moreover have "\<forall>r \<in> set (acc @ [crypto]). P r"
      using Cons.prems(2) assms(2)[OF Inr] by simp
    ultimately show ?thesis by (rule Cons.IH)
  next
    case (Inl e)
    with Cons.prems(1) have "transform_loop item_fn caught rest acc (errs + 1) = Inr (recs, n)"
      by (simp split: if_splits)
    then show ?thesis using Cons.prems(2) by (rule Cons.IH)
  qed
qed

lemma coinpaprika_item_valid: "coinpaprika_item now item = Inr r \<Longrightarrow> valid_record r"
  unfolding coinpaprika_item_def bind_Inr by (elim exE conjE) (rule CryptoData_init_valid)

lemma coingecko_item_valid: "coingecko_item now item = Inr r \<Longrightarrow> valid_record r"
  unfolding coingecko_item_def bind_Inr by (elim exE conjE) (rule CryptoData_init_valid)

lemma csv_item_valid: "csv_item repr now item = Inr r \<Longrightarrow> valid_record r"
  unfolding csv_item_def bind_Inr by (elim exE conjE) (rule CryptoData_init_valid)

lemma transform_coinpaprika_valid:
  assumes "transform_coinpaprika now items = Inr recs"
  shows "\<forall>r \<in> set recs. valid_record r"
proof -
  from assms obtain n where
    "transform_loop (coinpaprika_item now) [ValidationError, KeyError, TypeError] items [] 0
       = Inr (recs, n)"
    by (auto simp: transform_coinpaprika_def transform_coinpaprika_counted_def bind_Inr)
  from transform_loop_all[OF this coinpaprika_item_valid] show ?thesis by simp
qed

lemma transform_coingecko_valid:
  assumes "transform_coingecko now items = Inr recs"
  shows "\<forall>r \<in> set recs. valid_record r"
proof -
  from assms obtain n where
    "transform_loop (coingecko_item now) [ValidationError, KeyError, TypeError] items [] 0
       = Inr (recs, n)"
    by (auto simp: transform_coingecko_def transform_coingecko_counted_def bind_Inr)
  from transform_loop_all[OF this coingecko_item_valid] show ?thesis by simp
qed

lemma transform_csv_valid:
  assumes "transform_csv repr now items = Inr recs"
  shows "\<forall>r \<in> set recs. valid_record r"
proof -
  from assms obtain n where
    "transform_loop (csv_item repr now) [ValidationError, KeyError, TypeError, ValueError] items [] 0
       = Inr (recs, n)"
    by (auto simp: transform_csv_def transform_csv_counted_def bind_Inr)
  from transform_loop_all[OF this csv_item_valid] show ?thesis by simp
qed

subsection \<open>Transformers\<close>

lemma is_dict_iff: "is_dict v \<longleftrightarrow> (\<exists>kvs. v = PDict kvs)"
  by (cases v) (auto simp: is_dict_def)

lemma transform_loop_result:
  assumes "\<forall>item \<in> set items. \<forall>e. item_fn item = Inl e \<longrightarrow> kind e \<in> set caught"
  shows "transform_loop item_fn caught items acc errs
           = Inr (acc @ kept item_fn items, errs + skipped item_fn items)"
  using assms
proof (induction items arbitrary: acc errs)
  case Nil
  then show ?case by (simp add: kept_def skipped_def map_filter_simps)
next
  case (Cons item rest)
  then have rest: "\<forall>item \<in> set rest. \<forall>e. item_fn item = Inl e \<longrightarrow> kind e \<in> set caught"
    by simp
  show ?case
  proof (cases "item_fn item")
    case (Inl e)
    with Cons.prems have "kind e \<in> set caught" by simp
    with Inl Cons.IH[OF rest] show ?thesis
      by (simp add: kept_def skipped_def map_filter_simps)
  next
    case (Inr r)
    with Cons.IH[OF rest] show ?thesis
      by (simp add: kept_def skipped_def map_filter_simps)
  qed
qed

lemma py_get_dict: "py_get (PDict kvs) key dflt = Inr (case map_of kvs key of Some v \<Rightarrow> v | None \<Rightarrow> dflt)"
  by (simp add: py_get_def)




lemma coingecko_item_dict_raises:
  assumes "coingecko_item now (PDict kvs) = Inl e"
  shows "kind e = ValidationError"
  using assms unfolding coingecko_item_def py_get_dict bind_Inl
  by (elim disjE exE conjE) (auto dest: CryptoData_init_raises)


lemma transform_coingecko_counted_dicts:
  assumes "\<forall>item \<in> set items. is_dict item"
  shows "transform_coingecko_counted now items
           = Inr (kept (coingecko_item now) items, skipped (coingecko_item now) items)"
proof -
  have "\<forall>item \<in> set items. \<forall>e. coingecko_item now item = Inl e \<longrightarrow>
          kind e \<in> set [ValidationError, KeyError, TypeError]"
  proof (intro ballI allI impI)
    fix item e assume i: "item \<in> set items" and e: "coingecko_item now item = Inl e"
    from assms i obtain kvs where k: "item = PDict kvs" by (auto simp: is_dict_iff)
    from e[unfolded k] have "kind e = ValidationError" by (rule coingecko_item_dict_raises)
    then show "kind e \<in> set [ValidationError, KeyError, TypeError]" by simp
  qed
  from transform_loop_result[OF this] show ?thesis by (simp add: transform_coingecko_counted_def)
qed









































text \<open>
  Claim C2 fails for \<open>transform_coinpaprika\<close>: on an item whose \<open>quotes\<close> is \<open>null\<close> the
  chained \<open>.get\<close> raises AttributeError, which the \<open>except\<close> clause does not list. The
  exception leaves the transformer, and the valid item after it is never transformed,
  although on its own that item yields a record.
\<close>

theorem transform_coinpaprika_null_quotes:
  "transform_coinpaprika 0 [paprika_null_quotes, paprika_bitcoin]
     = Inl (Exn AttributeError ''object has no attribute 'get' '')
 \<and> (\<exists>r. transform_coinpaprika 0 [paprika_bitcoin] = Inr [r] \<and> crypto_id r = ''btc-bitcoin''
        \<and> price_usd r = Fin 50000 \<and> source r = ''coinpaprika'')"
  by (simp add: example_defs value_defs string_defs schema_defs transformer_defs)

subsection \<open>Source extractors\<close>

lemma get_tickers_step_429:
  assumes "rate_limited (paprika_http w (paprika_requests w))"
  shows "get_tickers (Suc depth) limit w
           = get_tickers depth limit (sleep 60 (w\<lparr>paprika_requests := Suc (paprika_requests w)\<rparr>))"
  using assms by (auto simp: rate_limited_def Let_def split: http_result.splits)

lemma get_tickers_step_other:
  assumes "\<not> rate_limited (paprika_http w (paprika_requests w))"
  shows "get_tickers (Suc depth) limit w
           = (outcome (paprika_http w (paprika_requests w)),
              w\<lparr>paprika_requests := Suc (paprika_requests w)\<rparr>)"
  using assms by (auto simp: rate_limited_def outcome_def Let_def split: http_result.splits)

lemma get_tickers_retries:
  assumes "\<forall>k < n. rate_limited (paprika_http w (paprika_requests w + k))"
    and "\<not> rate_limited (paprika_http w (paprika_requests w + n))"
    and "n < depth"
  shows "get_tickers depth limit w
           = (outcome (paprika_http w (paprika_requests w + n)),
              w\<lparr>paprika_requests := paprika_requests w + n + 1,
                slept := slept w + 60 * n, clock := clock w + 60 * n\<rparr>)"
  using assms
proof (induction n arbitrary: w depth)
  case 0
  then obtain d where d: "depth = Suc d" by (cases depth) auto
  from 0 have "\<not> rate_limited (paprika_http w (paprika_requests w))" by simp
  from get_tickers_step_other[OF this] show ?case unfolding d by simp
next
  case (Suc n)
  then obtain d where d: "depth = Suc d" by (cases depth) auto
  let ?w = "sleep 60 (w\<lparr>paprika_requests := Suc (paprika_requests w)\<rparr>)"
  from Suc.prems(1) have first: "rate_limited (paprika_http w (paprika_requests w))"
    by (metis add.right_neutral zero_less_Suc)
  have a: "\<forall>k < n. rate_limited (paprika_http ?w (paprika_requests ?w + k))"
    using Suc.prems(1) by (auto simp: sleep_def)
  have b: "\<not> rate_limited (paprika_http ?w (paprika_requests ?w + n))"
    using Suc.prems(2) by (simp add: sleep_def)
  have c: "n < d" using Suc.prems(3) d by simp
  from Suc.IH[OF a b c] show ?case
    unfolding d get_tickers_step_429[OF first] by (simp add: sleep_def)
qed

lemma get_tickers_exhausts:
  assumes "\<forall>k < depth. rate_limited (paprika_http w (paprika_requests w + k))"
  shows "get_tickers depth limit w
           = (Inl (Exn RecursionError ''maximum recursion depth exceeded''),
              w\<lparr>paprika_requests := paprika_requests w + depth,
                slept := slept w + 60 * depth, clock := clock w + 60 * depth\<rparr>)"
  using assms
proof (induction depth arbitrary: w)
  case 0
  then show ?case by simp
next
  case (Suc d)
  let ?w = "sleep 60 (w\<lparr>paprika_requests := Suc (paprika_requests w)\<rparr>)"
  from Suc.prems have first: "rate_limited (paprika_http w (paprika_requests w))"
    by (metis add.right_neutral zero_less_Suc)
  have a: "\<forall>k < d. rate_limited (paprika_http ?w (paprika_requests ?w + k))"
    using Suc.prems by (auto simp: sleep_def)
  from Suc.IH[OF a] show ?case
    unfolding get_tickers_step_429[OF first] by (simp add: sleep_def)
qed

lemma outcome_failure:
  "outcome (Transport_error msg) = Inl (Exn ConnectionError msg)"
  "is_error_status code \<Longrightarrow> outcome (Response code body) = Inl (Exn HTTPError ''HTTP error status'')"
  by (simp_all add: outcome_def response_data_def)

lemma get_coins_markets_once:
  "get_coins_markets limit w
     = (outcome (gecko_http w (gecko_requests w)), w\<lparr>gecko_requests := Suc (gecko_requests w)\<rparr>)"
  by (simp add: get_coins_markets_def outcome_def Let_def split: http_result.splits)

text \<open>
  Claim C5, as amended. \<open>get_tickers\<close> answers every 429 response by sleeping 60 seconds
  and issuing the request again: after \<open>n\<close> such responses in a row, followed by a
  response that is not a 429, it has made \<open>n + 1\<close> requests and slept \<open>60 * n\<close> seconds,
  and that last response decides the call. The number of retries is bounded only by the
  call depth: when every response is a 429 the call ends in RecursionError.
  \<open>get_coins_markets\<close>, on a response that is not a 429, makes that one request, does
  not sleep, and the response decides the call. A deciding response that is a transport
  error or has a status from 400 to 599 is raised to the caller; a response with any other
  status returns its body, when that is JSON of a type that has a length.
\<close>

theorem extractors_rate_limit:
  "((\<forall>k < n. rate_limited (paprika_http w (paprika_requests w + k)))
      \<and> \<not> rate_limited (paprika_http w (paprika_requests w + n)) \<and> n < depth
     \<longrightarrow> get_tickers depth limit w
           = (outcome (paprika_http w (paprika_requests w + n)),
              w\<lparr>paprika_requests := paprika_requests w + n + 1,
                slept := slept w + 60 * n, clock := clock w + 60 * n\<rparr>))
 \<and> ((\<forall>k < depth. rate_limited (paprika_http w (paprika_requests w + k)))
     \<longrightarrow> get_tickers depth limit w
           = (Inl (Exn RecursionError ''maximum recursion depth exceeded''),
              w\<lparr>paprika_requests := paprika_requests w + depth,
                slept := slept w + 60 * depth, clock := clock w + 60 * depth\<rparr>))
 \<and> (\<not> rate_limited (gecko_http w (gecko_requests w))
     \<longrightarrow> get_coins_markets limit w
           = (outcome (gecko_http w (gecko_requests w)),
              w\<lparr>gecko_requests := Suc (gecko_requests w)\<rparr>))
 \<and> outcome (Transport_error msg) = Inl (Exn ConnectionError msg)
 \<and> (is_error_status code
     \<longrightarrow> outcome (Response code body) = Inl (Exn HTTPError ''HTTP error status''))
 \<and> (\<not> is_error_status code \<and> py_len data = Inr m
     \<longrightarrow> outcome (Response code (Some data)) = Inr data)"
proof (intro conjI impI; (elim conjE)?)
  show "get_tickers depth limit w
           = (outcome (paprika_http w (paprika_requests w + n)),
              w\<lparr>paprika_requests := paprika_requests w + n + 1,
                slept := slept w + 60 * n, clock := clock w + 60 * n\<rparr>)"
    if "\<forall>k < n. rate_limited (paprika_http w (paprika_requests w + k))"
      "\<not> rate_limited (paprika_http w (paprika_requests w + n))" "n < depth"
    using that by (rule get_tickers_retries)
  show "get_tickers depth limit w
           = (Inl (Exn RecursionError ''maximum recursion depth exceeded''),
              w\<lparr>paprika_requests := paprika_requests w + depth,
                slept := slept w + 60 * depth, clock := clock w + 60 * depth\<rparr>)"
    if "\<forall>k < depth. rate_limited (paprika_http w (paprika_requests w + k))"
    using that by (rule get_tickers_exhausts)
  show "get_coins_markets limit w
           = (outcome (gecko_http w (gecko_requests w)),
              w\<lparr>gecko_requests := Suc (gecko_requests w)\<rparr>)"
    by (rule get_coins_markets_once)
  show "outcome (Transport_error msg) = Inl (Exn ConnectionError msg)"
    by (rule outcome_failure)
  show "outcome (Response code body) = Inl (Exn HTTPError ''HTTP error status'')"
    if "is_error_status code"
    using that by (rule outcome_failure)
  show "outcome (Response code (Some data)) = Inr data"
    if "\<not> is_error_status code" "py_len data = Inr m"
    using that by (simp add: outcome_def response_data_def bind_def)
qed

lemma world_429_responses:
  "\<forall>k < 2. rate_limited (paprika_http world_429 (paprika_requests world_429 + k))"
  "\<not> rate_limited (paprika_http world_429 (paprika_requests world_429 + 2))"
  by (simp_all add: world_429_def world0_def rate_limited_def)

text \<open>Two 429 responses, then a 200: three requests, 120 seconds of sleep, and the data.\<close>

theorem extractors_rate_limit_witness:
  "get_tickers 1000 10 world_429
     = (Inr (PList [paprika_bitcoin]),
        world_429\<lparr>paprika_requests := 3, slept := 120, clock := 120\<rparr>)"
proof -
  have d: "(2::nat) < 1000" by simp
  have "get_tickers 1000 10 world_429
           = (outcome (paprika_http world_429 (paprika_requests world_429 + 2)),
              world_429\<lparr>paprika_requests := paprika_requests world_429 + 2 + 1,
                slept := slept world_429 + 60 * 2, clock := clock world_429 + 60 * 2\<rparr>)"
    using extractors_rate_limit[where w = world_429 and n = 2 and depth = 1000 and limit = 10,
        THEN conjunct1] world_429_responses d
    by blast
  then show ?thesis
    by (simp add: world_429_def world0_def outcome_def response_data_def py_len_def bind_def
        is_error_status_def)
qed

text \<open>
  The claim as stated allows one retry per call. Here a single call of \<open>get_tickers\<close>
  makes three requests and sleeps twice before it returns.
\<close>

theorem extractors_rate_limit_counterexample:
  "paprika_requests (snd (get_tickers 1000 10 world_429)) = paprika_requests world_429 + 3
 \<and> slept (snd (get_tickers 1000 10 world_429)) = slept world_429 + 120
 \<and> fst (get_tickers 1000 10 world_429) = Inr (PList [paprika_bitcoin])"
proof -
  have d: "(2::nat) < 1000" by simp
  from get_tickers_retries[OF world_429_responses d, of 10] show ?thesis
    by (simp add: world_429_def world0_def outcome_def response_data_def py_len_def bind_def
        is_error_status_def)
qed

text \<open>
  \<open>get_coins_markets\<close> has no branch for the status 429, which \<open>get_tickers\<close> retries:
  the response is raised as an HTTP error after one request and no sleep.
\<close>

lemma get_coins_markets_429:
  "gecko_http w (gecko_requests w) = Response 429 body \<Longrightarrow>
     get_coins_markets limit w
       = (Inl (Exn HTTPError ''HTTP error status''), w\<lparr>gecko_requests := Suc (gecko_requests w)\<rparr>)"
  by (simp add: get_coins_markets_def response_data_def is_error_status_def Let_def)

end
